theory Spec2Isabelle
  imports Complex_Main
begin

section \<open>Floating-point values\<close>

text \<open>
  The script computes with IEEE doubles (Python \<^verbatim>\<open>float\<close>, \<^verbatim>\<open>numpy.float64\<close>).
  A double is modelled as a real number or one of the three special values; rounding,
  overflow of finite results and the sign of zero are left out. What is kept is what
  the claims depend on: NaN compares false with everything, and NaN and the infinities
  flow through the arithmetic as IEEE prescribes.
\<close>

datatype pyfloat = Num real | PosInf | NegInf | NaN

fun fl_lt :: "pyfloat \<Rightarrow> pyfloat \<Rightarrow> bool" where
  "fl_lt NaN _ = False"
| "fl_lt _ NaN = False"
| "fl_lt (Num a) (Num b) = (a < b)"
| "fl_lt _ NegInf = False"
| "fl_lt PosInf _ = False"
| "fl_lt _ _ = True"

fun fl_le :: "pyfloat \<Rightarrow> pyfloat \<Rightarrow> bool" where
  "fl_le NaN _ = False"
| "fl_le _ NaN = False"
| "fl_le (Num a) (Num b) = (a \<le> b)"
| "fl_le NegInf _ = True"
| "fl_le _ PosInf = True"
| "fl_le _ _ = False"

fun fl_abs :: "pyfloat \<Rightarrow> pyfloat" where
  "fl_abs (Num a) = Num \<bar>a\<bar>"
| "fl_abs PosInf = PosInf"
| "fl_abs NegInf = PosInf"
| "fl_abs NaN = NaN"

text \<open>The sign of a non-NaN value, used for products with an infinity.\<close>

fun fl_sgn :: "pyfloat \<Rightarrow> real" where
  "fl_sgn (Num a) = sgn a"
| "fl_sgn PosInf = 1"
| "fl_sgn NegInf = - 1"
| "fl_sgn NaN = 0"

fun fl_mul :: "pyfloat \<Rightarrow> pyfloat \<Rightarrow> pyfloat" where
  "fl_mul NaN _ = NaN"
| "fl_mul _ NaN = NaN"
| "fl_mul (Num a) (Num b) = Num (a * b)"
| "fl_mul x y =
     (if fl_sgn x * fl_sgn y > 0 then PosInf
      else if fl_sgn x * fl_sgn y < 0 then NegInf
      else NaN)"

fun fl_sub :: "pyfloat \<Rightarrow> pyfloat \<Rightarrow> pyfloat" where
  "fl_sub NaN _ = NaN"
| "fl_sub _ NaN = NaN"
| "fl_sub (Num a) (Num b) = Num (a - b)"
| "fl_sub PosInf PosInf = NaN"
| "fl_sub NegInf NegInf = NaN"
| "fl_sub PosInf _ = PosInf"
| "fl_sub NegInf _ = NegInf"
| "fl_sub _ PosInf = NegInf"
| "fl_sub _ NegInf = PosInf"

text \<open>
  Division of doubles in numpy and pandas does not raise: a zero divisor gives an
  infinity or NaN.
\<close>

fun fl_div :: "pyfloat \<Rightarrow> pyfloat \<Rightarrow> pyfloat" where
  "fl_div NaN _ = NaN"
| "fl_div _ NaN = NaN"
| "fl_div (Num a) (Num b) =
     (if b = 0 then (if a = 0 then NaN else if a > 0 then PosInf else NegInf)
      else Num (a / b))"
| "fl_div (Num a) _ = Num 0"
| "fl_div PosInf (Num b) = (if b \<ge> 0 then PosInf else NegInf)"
| "fl_div NegInf (Num b) = (if b \<ge> 0 then NegInf else PosInf)"
| "fl_div _ _ = NaN"

text \<open>\<^verbatim>\<open>np.log\<close>: NaN for a negative argument, minus infinity at zero.\<close>

fun fl_log :: "pyfloat \<Rightarrow> pyfloat" where
  "fl_log (Num a) = (if a > 0 then Num (ln a) else if a = 0 then NegInf else NaN)"
| "fl_log PosInf = PosInf"
| "fl_log NegInf = NaN"
| "fl_log NaN = NaN"

text \<open>
  The horizon is what \<^verbatim>\<open>.days\<close> gives: a Python integer, or the double NaN when the
  difference of the dates is pandas' not-a-time value.
\<close>

datatype pydays = Days int | NanDays

text \<open>\<^verbatim>\<open>np.sqrt\<close> of the horizon: NaN below zero and at NaN.\<close>

fun np_sqrt :: "pydays \<Rightarrow> pyfloat" where
  "np_sqrt (Days n) = (if n < 0 then NaN else Num (sqrt (real_of_int n)))"
| "np_sqrt NanDays = NaN"

text \<open>
  Python's builtins \<^verbatim>\<open>min(a, b)\<close> and \<^verbatim>\<open>max(a, b)\<close> keep the first argument
  and replace it by the second only when the second compares strictly smaller
  (strictly greater) than it.
\<close>

definition py_min :: "pyfloat \<Rightarrow> pyfloat \<Rightarrow> pyfloat" where
  "py_min a b = (if fl_lt b a then b else a)"

definition py_max :: "pyfloat \<Rightarrow> pyfloat \<Rightarrow> pyfloat" where
  "py_max a b = (if fl_lt a b then b else a)"

section \<open>Plausibility clamp (lines 77-80 of \<^verbatim>\<open>calculer_var\<close>)\<close>

definition vol_min :: pyfloat where
  "vol_min = fl_div (fl_div (Num 0.4) (Num 100)) (Num 2.015)"

definition vol_max :: pyfloat where
  "vol_max = fl_div (fl_div (Num 0.6) (Num 100)) (Num 2.015)"

definition vol_clamp :: "pyfloat \<Rightarrow> pyfloat" where
  "vol_clamp vol_current = py_max (py_min vol_current vol_max) vol_min"

section \<open>Exceptions\<close>

text \<open>
  Every \<^verbatim>\<open>raise\<close> of the script and every exception of a library call is a value.
  \<open>OtherException\<close> is any other subclass of \<^verbatim>\<open>Exception\<close>; \<open>Interrupt\<close> is an
  exception that is not one (\<^verbatim>\<open>KeyboardInterrupt\<close>, \<^verbatim>\<open>SystemExit\<close>), which
  \<^verbatim>\<open>except Exception\<close> does not catch. \<open>str_exn\<close> is Python's \<^verbatim>\<open>str(e)\<close> (a
  \<^verbatim>\<open>KeyError\<close> prints its key in quotes). The French messages are written without
  their accents.
\<close>

datatype exn =
  ValueError string | KeyError string | IndexError string | OtherException string
  | Interrupt string

fun str_exn :: "exn \<Rightarrow> string" where
  "str_exn (ValueError m) = m"
| "str_exn (KeyError k) = [CHR 0x27] @ k @ [CHR 0x27]"
| "str_exn (IndexError m) = m"
| "str_exn (OtherException m) = m"
| "str_exn (Interrupt m) = m"

fun is_Exception :: "exn \<Rightarrow> bool" where
  "is_Exception (Interrupt m) = False"
| "is_Exception x = True"

definition msg_montant :: string where
  "msg_montant = ''Le montant doit etre positif.''"

definition msg_dates :: string where
  "msg_dates = ''Les dates doivent etre au format YYYY-MM-DD.''"

definition msg_echeance :: string where
  "msg_echeance = ''La date d'' @ [CHR 0x27] @ ''echeance doit etre posterieure a la date de facturation.''"

definition msg_horizon :: string where
  "msg_horizon = ''L'' @ [CHR 0x27] @ ''horizon doit etre d'' @ [CHR 0x27] @ ''au moins 1 jour.''"

definition msg_taux_vide :: string where
  "msg_taux_vide = ''Impossible de recuperer le taux USD/MAD en temps reel.''"

definition msg_taux_nan :: string where
  "msg_taux_nan = ''Les donnees de cloture USD/MAD sont toutes NaN.''"

definition msg_historique :: string where
  "msg_historique = ''Impossible de recuperer les donnees historiques.''"

definition msg_insuffisant :: string where
  "msg_insuffisant = ''Donnees historiques insuffisantes (< 250 observations).''"

section \<open>Series and frames\<close>

text \<open>
  A pandas Series of doubles is the list of its values, a missing value being NaN.
  A DataFrame is its number of rows and its columns by name; in a frame that pandas
  can build every column has \<open>n_rows\<close> values.
\<close>

record frame =
  n_rows :: nat
  columns :: "(string \<times> pyfloat list) list"

definition frame_empty :: "frame \<Rightarrow> bool" where
  "frame_empty data = (n_rows data = 0 \<or> columns data = [])"

definition has_column :: "frame \<Rightarrow> string \<Rightarrow> bool" where
  "has_column data c = (c \<in> set (map fst (columns data)))"

definition get_column :: "frame \<Rightarrow> string \<Rightarrow> exn + pyfloat list" where
  "get_column data c =
     (case map_of (columns data) c of None \<Rightarrow> Inl (KeyError c) | Some s \<Rightarrow> Inr s)"

definition is_na :: "pyfloat \<Rightarrow> bool" where
  "is_na x = (x = NaN)"

definition dropna :: "pyfloat list \<Rightarrow> pyfloat list" where
  "dropna xs = filter (\<lambda>x. \<not> is_na x) xs"

definition shift1 :: "pyfloat list \<Rightarrow> pyfloat list" where
  "shift1 xs = (if xs = [] then [] else NaN # butlast xs)"

definition iloc_last :: "pyfloat list \<Rightarrow> exn + pyfloat" where
  "iloc_last xs =
     (if xs = [] then Inl (IndexError ''single positional indexer is out-of-bounds'')
      else Inr (last xs))"

section \<open>The world outside the script\<close>

text \<open>
  The market-data downloads, the date parser, the EGARCH fit, the Student-t quantile
  function and Python's number formatting are library code. They are parameters of the
  model: one \<open>env\<close> is one frozen snapshot of what they answer.
  What \<^verbatim>\<open>pd.to_datetime\<close> returns is a timestamp, given by its number of
  nanoseconds since the epoch, or pandas' not-a-time value \<open>NaT\<close> (its answer to the
  empty string, which it does not reject).
\<close>

datatype timestamp = Timestamp int | NaT

record fit_result =
  conditional_volatility :: "pyfloat list"
  params :: "(string \<times> pyfloat) list"

record env =
  quote_feed :: "exn + frame"
  history_feed :: "exn + frame"
  to_datetime :: "string \<Rightarrow> exn + timestamp"
  egarch_fit :: "pyfloat list \<Rightarrow> exn + fit_result"
  t_ppf :: "pyfloat \<Rightarrow> pyfloat \<Rightarrow> pyfloat"
  fmt_4f :: "pyfloat \<Rightarrow> string"
  fmt_0f :: "pyfloat \<Rightarrow> string"
  fmt_plain :: "pydays \<Rightarrow> string"

section \<open>\<^verbatim>\<open>get_taux_usd_mad\<close>\<close>

definition get_taux_usd_mad_try :: "env \<Rightarrow> exn + pyfloat" where
  "get_taux_usd_mad_try e =
     (case quote_feed e of
        Inl x \<Rightarrow> Inl x
      | Inr usd_mad_data \<Rightarrow>
          if frame_empty usd_mad_data then Inl (ValueError msg_taux_vide)
          else (case get_column usd_mad_data ''Close'' of
                  Inl x \<Rightarrow> Inl x
                | Inr close_data \<Rightarrow>
                    if list_all is_na close_data then Inl (ValueError msg_taux_nan)
                    else iloc_last (dropna close_data)))"

text \<open>
  The function returns the rate (\<open>Inr (Inr taux)\<close>) or, from its
  \<^verbatim>\<open>except Exception\<close>, the text of its own error message (\<open>Inr (Inl text)\<close>);
  an exception that handler does not catch leaves the function (\<open>Inl x\<close>).
\<close>

definition get_taux_usd_mad :: "env \<Rightarrow> exn + (string + pyfloat)" where
  "get_taux_usd_mad e =
     (case get_taux_usd_mad_try e of
        Inl x \<Rightarrow>
          if is_Exception x
          then Inr (Inl (''Erreur lors de la recuperation du taux : '' @ str_exn x))
          else Inl x
      | Inr taux \<Rightarrow> Inr (Inr taux))"

section \<open>\<^verbatim>\<open>validate_inputs\<close>\<close>

definition ns_per_day :: int where
  "ns_per_day = 86400 * 1000000000"

text \<open>The \<^verbatim>\<open>except ValueError\<close> around the two parses: other exceptions pass.\<close>

fun dates_handler :: "exn \<Rightarrow> exn" where
  "dates_handler (ValueError m) = ValueError msg_dates"
| "dates_handler x = x"

text \<open>
  Comparison and difference of what the parser returned. Every comparison with
  \<open>NaT\<close> is false; a difference with \<open>NaT\<close> is \<open>NaT\<close>, whose \<^verbatim>\<open>.days\<close> is NaN;
  and NaN is not below 1.
\<close>

fun ts_lt :: "timestamp \<Rightarrow> timestamp \<Rightarrow> bool" where
  "ts_lt (Timestamp a) (Timestamp b) = (a < b)"
| "ts_lt _ _ = False"

fun days_between :: "timestamp \<Rightarrow> timestamp \<Rightarrow> pydays" where
  "days_between (Timestamp a) (Timestamp b) = Days ((a - b) div ns_per_day)"
| "days_between _ _ = NanDays"

fun days_lt :: "pydays \<Rightarrow> int \<Rightarrow> bool" where
  "days_lt (Days n) k = (n < k)"
| "days_lt NanDays k = False"

definition validate_inputs ::
  "(string \<Rightarrow> exn + timestamp) \<Rightarrow> pyfloat \<Rightarrow> string \<Rightarrow> string \<Rightarrow> exn + pydays" where
  "validate_inputs parse montant_usd date_fact date_ech =
     (if fl_le montant_usd (Num 0) then Inl (ValueError msg_montant)
      else (case parse date_fact of
              Inl x \<Rightarrow> Inl (dates_handler x)
            | Inr t_fact \<Rightarrow>
               (case parse date_ech of
                  Inl x \<Rightarrow> Inl (dates_handler x)
                | Inr t_ech \<Rightarrow>
                    if ts_lt t_ech t_fact then Inl (ValueError msg_echeance)
                    else (let horizon = days_between t_ech t_fact
                          in if days_lt horizon 1 then Inl (ValueError msg_horizon)
                             else Inr horizon))))"

section \<open>Historical series (lines 58-64) and log-returns (lines 67-68)\<close>

definition select_close :: "frame \<Rightarrow> exn + pyfloat list" where
  "select_close data =
     (if has_column data ''Adj Close'' then get_column data ''Adj Close''
      else get_column data ''Close'')"

definition fetch_history :: "exn + frame \<Rightarrow> exn + pyfloat list" where
  "fetch_history download =
     (case download of
        Inl x \<Rightarrow> Inl x
      | Inr data \<Rightarrow>
          if frame_empty data then Inl (ValueError msg_historique)
          else (case select_close data of
                  Inl x \<Rightarrow> Inl x
                | Inr col \<Rightarrow>
                    (let taux = dropna col
                     in if length taux < 250 then Inl (ValueError msg_insuffisant)
                        else Inr taux)))"

definition returns_pct :: "pyfloat list \<Rightarrow> pyfloat list" where
  "returns_pct taux =
     (let returns = dropna (map fl_log (map2 fl_div taux (shift1 taux)))
      in map (\<lambda>r. fl_mul r (Num 100)) returns)"


section \<open>Volatility read from the fit (lines 75-76, 84)\<close>

definition current_volatility :: "fit_result \<Rightarrow> exn + pyfloat" where
  "current_volatility result =
     (case iloc_last (conditional_volatility result) of
        Inl x \<Rightarrow> Inl x
      | Inr vol_current_pct \<Rightarrow> Inr (fl_div vol_current_pct (Num 100)))"

definition get_param :: "fit_result \<Rightarrow> string \<Rightarrow> exn + pyfloat" where
  "get_param result k =
     (case map_of (params result) k of None \<Rightarrow> Inl (KeyError k) | Some v \<Rightarrow> Inr v)"

section \<open>VaR computation (lines 84-106)\<close>

text \<open>
  The local variables of \<^verbatim>\<open>calculer_var\<close> once line 106 is passed, under their own
  names; \<open>r_horizon\<close> and \<open>r_taux\<close> are the horizon and the current rate the report
  prints. The three stress variables are \<open>None\<close> while Python has them at \<^verbatim>\<open>None\<close>
  or unbound.
\<close>

record var_locals =
  r_horizon :: pydays
  r_taux :: pyfloat
  quantile_t :: pyfloat
  var_journaliere :: pyfloat
  var_journaliere_pct :: pyfloat
  var_horizon :: pyfloat
  var_horizon_pct :: pyfloat
  montant_comptabilise :: pyfloat
  perte_potentielle :: pyfloat
  montant_estime :: pyfloat
  quantile_t_stress :: "pyfloat option"
  var_horizon_stress :: "pyfloat option"
  var_horizon_stress_pct :: "pyfloat option"
  perte_potentielle_stress :: "pyfloat option"

definition var_section ::
  "(pyfloat \<Rightarrow> pyfloat \<Rightarrow> pyfloat) \<Rightarrow> pyfloat \<Rightarrow> pyfloat \<Rightarrow> pydays \<Rightarrow> pyfloat \<Rightarrow> pyfloat
     \<Rightarrow> bool \<Rightarrow> var_locals" where
  "var_section ppf vol_current dof horizon montant_usd taux_usd_mad stress_test =
     (let quantile_t = fl_abs (ppf (Num 0.05) dof);
          var_journaliere = fl_mul quantile_t vol_current;
          var_journaliere_pct = fl_mul var_journaliere (Num 100);
          var_horizon = fl_mul var_journaliere (np_sqrt horizon);
          var_horizon_pct = fl_mul var_horizon (Num 100);
          montant_comptabilise = fl_mul montant_usd taux_usd_mad;
          perte_potentielle = fl_mul (fl_mul var_horizon montant_usd) taux_usd_mad;
          montant_estime = fl_sub montant_comptabilise perte_potentielle;
          quantile_t_stress = fl_abs (ppf (Num 0.01) dof);
          var_horizon_stress = fl_mul (fl_mul quantile_t_stress vol_current) (np_sqrt horizon);
          var_horizon_stress_pct = fl_mul var_horizon_stress (Num 100);
          perte_potentielle_stress = fl_mul (fl_mul var_horizon_stress montant_usd) taux_usd_mad
      in \<lparr>r_horizon = horizon,
          r_taux = taux_usd_mad,
          quantile_t = quantile_t,
          var_journaliere = var_journaliere,
          var_journaliere_pct = var_journaliere_pct,
          var_horizon = var_horizon,
          var_horizon_pct = var_horizon_pct,
          montant_comptabilise = montant_comptabilise,
          perte_potentielle = perte_potentielle,
          montant_estime = montant_estime,
          quantile_t_stress = (if stress_test then Some quantile_t_stress else None),
          var_horizon_stress = (if stress_test then Some var_horizon_stress else None),
          var_horizon_stress_pct = (if stress_test then Some var_horizon_stress_pct else None),
          perte_potentielle_stress =
            (if stress_test then Some perte_potentielle_stress else None)\<rparr>)"

section \<open>The report (lines 109-118)\<close>

definition nl :: string where
  "nl = [CHR 0x0A]"

definition resume_base :: "env \<Rightarrow> var_locals \<Rightarrow> string" where
  "resume_base e r =
     nl @ ''Taux USD/MAD actuel : '' @ fmt_4f e (r_taux r) @ nl
     @ ''Montant comptabilise a la date de facturation : ''
     @ fmt_0f e (montant_comptabilise r) @ '' MAD'' @ nl
     @ ''Montant estime au reglement (scenario defavorable) : ''
     @ fmt_0f e (montant_estime r) @ '' MAD'' @ nl
     @ ''VaR journaliere (en %) : '' @ fmt_4f e (var_journaliere_pct r) @ ''%'' @ nl
     @ ''VaR horizon '' @ fmt_plain e (r_horizon r) @ '' jours (en %) : ''
     @ fmt_4f e (var_horizon_pct r) @ ''%'' @ nl
     @ ''Perte potentielle maximale : '' @ fmt_0f e (perte_potentielle r) @ '' MAD'' @ nl"

definition resume_stress :: "env \<Rightarrow> pyfloat \<Rightarrow> pyfloat \<Rightarrow> string" where
  "resume_stress e vhs_pct pps =
     nl @ ''VaR stressee (en %) : '' @ fmt_4f e vhs_pct @ ''%'' @ nl
     @ ''Perte stressee : '' @ fmt_0f e pps @ '' MAD''"

text \<open>
  With \<^verbatim>\<open>stress_test\<close> set, line 118 reads two stress variables; were they not
  assigned, Python would raise there.
\<close>

definition resume_text :: "env \<Rightarrow> var_locals \<Rightarrow> bool \<Rightarrow> exn + string" where
  "resume_text e r stress_test =
     (if stress_test then
        (case (var_horizon_stress_pct r, perte_potentielle_stress r) of
           (Some vhs_pct, Some pps) \<Rightarrow> Inr (resume_base e r @ resume_stress e vhs_pct pps)
         | _ \<Rightarrow> Inl (OtherException ''stress variable not assigned''))
      else Inr (resume_base e r))"

section \<open>\<^verbatim>\<open>calculer_var\<close>\<close>

text \<open>
  The body of the \<^verbatim>\<open>try\<close>: it raises, or returns the rate feed's error text
  (line 53), or returns the report (line 120). \<open>Resume\<close> also carries the local
  variables the report was printed from. The last argument and the second component of
  the result are the standard output, which line 81 appends to.
\<close>

datatype outcome = Raised exn | RateError string | Resume var_locals string

definition adjusted_line :: "env \<Rightarrow> pyfloat \<Rightarrow> string" where
  "adjusted_line e vol_current =
     ''Adjusted volatility: '' @ fmt_4f e (fl_mul vol_current (Num 100)) @ ''%''"

definition calculer_var_try ::
  "env \<Rightarrow> pyfloat \<Rightarrow> string \<Rightarrow> string \<Rightarrow> bool \<Rightarrow> string list \<Rightarrow> outcome \<times> string list" where
  "calculer_var_try e montant_usd date_fact date_ech stress_test out =
     (case validate_inputs (to_datetime e) montant_usd date_fact date_ech of
        Inl x \<Rightarrow> (Raised x, out)
      | Inr horizon \<Rightarrow>
     (case get_taux_usd_mad e of
        Inl x \<Rightarrow> (Raised x, out)
      | Inr (Inl m) \<Rightarrow> (RateError m, out)
      | Inr (Inr taux_usd_mad) \<Rightarrow>
     (case fetch_history (history_feed e) of
        Inl x \<Rightarrow> (Raised x, out)
      | Inr taux \<Rightarrow>
     (case egarch_fit e (returns_pct taux) of
        Inl x \<Rightarrow> (Raised x, out)
      | Inr result \<Rightarrow>
     (case current_volatility result of
        Inl x \<Rightarrow> (Raised x, out)
      | Inr vol \<Rightarrow>
         (let vol_current = vol_clamp vol;
              out1 = out @ [adjusted_line e vol_current]
          in (case get_param result ''nu'' of
                Inl x \<Rightarrow> (Raised x, out1)
              | Inr dof \<Rightarrow>
                 (let r = var_section (t_ppf e) vol_current dof horizon montant_usd
                            taux_usd_mad stress_test
                  in (case resume_text e r stress_test of
                        Inl x \<Rightarrow> (Raised x, out1)
                      | Inr resume \<Rightarrow> (Resume r resume, out1))))))))))"



section \<open>The specification's VaR calculator\<close>

text \<open>
  Written from the specification's words, to compare the script with: the quantile is
  the absolute value of the inverse Student-t CDF at one minus the confidence, the
  daily VaR is the quantile times the volatility, the horizon VaR is the daily VaR
  times the square root of the horizon.
\<close>

definition spec_computeVaR ::
  "(pyfloat \<Rightarrow> pyfloat \<Rightarrow> pyfloat) \<Rightarrow> pyfloat \<Rightarrow> pyfloat \<Rightarrow> int \<Rightarrow> real \<Rightarrow> pyfloat \<times> pyfloat" where
  "spec_computeVaR inverse_cdf volatilityDecimal nu horizonDays confidence =
     (let quantile = fl_abs (inverse_cdf (Num (1 - confidence)) nu);
          dailyVaR = fl_mul quantile volatilityDecimal;
          horizonVaR = fl_mul dailyVaR (np_sqrt (Days horizonDays))
      in (dailyVaR, horizonVaR))"

section \<open>The specification's error kinds\<close>

text \<open>
  The script raises \<^verbatim>\<open>ValueError\<close> with a message; the specification names kinds
  of error. Each kind is the set of the messages it stands for.
\<close>

definition InvalidAmount :: "exn \<Rightarrow> bool" where
  "InvalidAmount x = (x = ValueError msg_montant)"

definition InvalidDate :: "exn \<Rightarrow> bool" where
  "InvalidDate x = (x = ValueError msg_dates)"

definition InvalidHorizon :: "exn \<Rightarrow> bool" where
  "InvalidHorizon x = (x = ValueError msg_echeance \<or> x = ValueError msg_horizon)"

definition DataUnavailable :: "exn \<Rightarrow> bool" where
  "DataUnavailable x = (x = ValueError msg_historique \<or> x = ValueError msg_insuffisant)"

section \<open>Concrete inputs\<close>

text \<open>
  A date parser that knows two dates, one month apart, and answers the empty string as
  \<^verbatim>\<open>pd.to_datetime\<close> does.
\<close>

definition parse_ex :: "string \<Rightarrow> exn + timestamp" where
  "parse_ex s =
     (if s = ''2025-01-01'' then Inr (Timestamp 0)
      else if s = ''2025-02-01'' then Inr (Timestamp (31 * ns_per_day))
      else if s = [] then Inr NaT
      else Inl (ValueError ''Unknown datetime string format''))"

text \<open>A frame of \<open>n\<close> rows with the plain close column only.\<close>

definition frame_ex :: "nat \<Rightarrow> frame" where
  "frame_ex n = \<lparr>n_rows = n, columns = [(''Close'', replicate n (Num 10))]\<rparr>"

text \<open>
  A fit whose last conditional volatility is \<open>v\<close> (in percent) and whose tail
  parameter is \<open>nu\<close>.
\<close>

definition fit_ex :: "pyfloat \<Rightarrow> pyfloat \<Rightarrow> fit_result" where
  "fit_ex v nu = \<lparr>conditional_volatility = [v], params = [(''nu'', nu)]\<rparr>"

text \<open>
  A quantile function to compute with: that of the uniform distribution on
  \<open>[-1/2, 1/2]\<close>, and NaN when the probability or the parameter is not finite.
\<close>

definition ppf_ex :: "pyfloat \<Rightarrow> pyfloat \<Rightarrow> pyfloat" where
  "ppf_ex p nu = (case (p, nu) of (Num x, Num n) \<Rightarrow> Num (x - 1 / 2) | _ \<Rightarrow> NaN)"

text \<open>
  A snapshot in which every stage succeeds: a quote of 10, 250 daily closes, a fit
  with volatility 0.5 percent and the given tail parameter.
\<close>

definition env_ex :: "pyfloat \<Rightarrow> env" where
  "env_ex nu =
     \<lparr>quote_feed = Inr \<lparr>n_rows = 1, columns = [(''Close'', [Num 10])]\<rparr>,
      history_feed = Inr (frame_ex 250),
      to_datetime = parse_ex,
      egarch_fit = (\<lambda>returns. Inr (fit_ex (Num 0.5) nu)),
      t_ppf = ppf_ex,
      fmt_4f = (\<lambda>x. ''f4''),
      fmt_0f = (\<lambda>x. ''f0''),
      fmt_plain = (\<lambda>n. ''d'')\<rparr>"


section \<open>Vocabulary of the properties\<close>

text \<open>A price is usable when it is finite and positive; a missing price is NaN.\<close>

definition price_ok :: "pyfloat \<Rightarrow> bool" where
  "price_ok x = (case x of Num a \<Rightarrow> 0 < a | NaN \<Rightarrow> True | _ \<Rightarrow> False)"

fun the_num :: "pyfloat \<Rightarrow> real" where
  "the_num (Num a) = a"
| "the_num _ = 0"

text \<open>The local variables behind a returned report, if a report was returned.\<close>

fun outcome_locals :: "outcome \<Rightarrow> var_locals option" where
  "outcome_locals (Resume r resume) = Some r"
| "outcome_locals _ = None"

text \<open>
  The values the report prints whether or not stress testing is on: horizon, current
  rate, booked amount, estimated settlement amount, daily and horizon VaR in percent,
  potential loss.
\<close>

definition baseline_fields ::
  "var_locals \<Rightarrow> pydays \<times> pyfloat \<times> pyfloat \<times> pyfloat \<times> pyfloat \<times> pyfloat \<times> pyfloat" where
  "baseline_fields r =
     (r_horizon r, r_taux r, montant_comptabilise r, montant_estime r,
      var_journaliere_pct r, var_horizon_pct r, perte_potentielle r)"

text \<open>
  What the monotonicity in the confidence needs of the quantile function, and what the
  Student-t quantile function has for every tail parameter: on the lower tail, below
  probability one half, it is finite, non-decreasing and not positive.
\<close>

definition lower_tail_quantile :: "(pyfloat \<Rightarrow> pyfloat \<Rightarrow> pyfloat) \<Rightarrow> pyfloat \<Rightarrow> bool" where
  "lower_tail_quantile ppf nu =
     (\<forall>p1 p2. 0 < p1 \<and> p1 \<le> p2 \<and> p2 < 1 / 2 \<longrightarrow>
        (\<exists>a b. ppf (Num p1) nu = Num a \<and> ppf (Num p2) nu = Num b \<and> a \<le> b \<and> b \<le> 0))"



section \<open>The plausibility clamp\<close>

lemma vol_min_eq: "vol_min = Num (0.004 / 2.015)"
  by (simp add: vol_min_def)

lemma vol_max_eq: "vol_max = Num (0.006 / 2.015)"
  by (simp add: vol_max_def)

lemma vol_clamp_in_band:
  assumes "v \<noteq> NaN"
  shows "fl_le vol_min (vol_clamp v) \<and> fl_le (vol_clamp v) vol_max"
  using assms
  by (cases v) (simp_all add: vol_clamp_def py_min_def py_max_def vol_min_eq vol_max_eq)

lemma vol_clamp_bounds:
  "vol_clamp vol_min = vol_min \<and> vol_clamp vol_max = vol_max"
  by (simp add: vol_clamp_def py_min_def py_max_def vol_min_eq vol_max_eq)

section \<open>The VaR formulas\<close>

text \<open>
  C1. The daily and horizon VaR of the script are the specification's
  \<open>computeVaR\<close> at confidence 0.95: the absolute Student-t quantile at
  1 - 0.95 times the volatility, and that times the square root of the horizon; the
  stressed horizon VaR is \<open>computeVaR\<close> at confidence 0.99. The potential loss is the
  horizon VaR times the amount times the rate, the booked amount is the amount times
  the rate, and the estimated settlement amount is their difference. This holds for
  every volatility, degrees of freedom, horizon in days, amount and rate.
\<close>

theorem var_section_refines_spec:
  "let r = var_section ppf vol dof (Days h) montant taux stress in
     (var_journaliere r, var_horizon r) = spec_computeVaR ppf vol dof h 0.95
   \<and> perte_potentielle r = fl_mul (fl_mul (var_horizon r) montant) taux
   \<and> montant_comptabilise r = fl_mul montant taux
   \<and> montant_estime r = fl_sub (montant_comptabilise r) (perte_potentielle r)
   \<and> var_horizon_stress r =
       (if stress then Some (snd (spec_computeVaR ppf vol dof h 0.99)) else None)
   \<and> perte_potentielle_stress r =
       (if stress
        then Some (fl_mul (fl_mul (snd (spec_computeVaR ppf vol dof h 0.99)) montant) taux)
        else None)"
  by (simp add: var_section_def spec_computeVaR_def Let_def)

section \<open>The clamp at NaN\<close>

text \<open>
  C2. The clamp does not bring NaN into the band: both comparisons of \<^verbatim>\<open>min\<close> and
  \<^verbatim>\<open>max\<close> are false at NaN, so NaN is returned as it came. (For every other input
  the result is in the band, \<open>vol_clamp_in_band\<close>, and the bounds are fixed points,
  \<open>vol_clamp_bounds\<close>.)
\<close>

theorem vol_clamp_NaN:
  "vol_clamp NaN = NaN
   \<and> \<not> fl_le vol_min (vol_clamp NaN) \<and> \<not> fl_le (vol_clamp NaN) vol_max"
  by (simp add: vol_clamp_def py_min_def py_max_def vol_min_eq vol_max_eq)

section \<open>Input validation\<close>

text \<open>
  For dates that the parser turns into timestamps the checks run in this order: an
  amount at or below zero fails with InvalidAmount; otherwise a due date before the
  invoice date, or a difference of less than one whole day (equal dates among them),
  fails with InvalidHorizon; otherwise the result is the number of whole days between
  the dates. A horizon that is a number of days is at least 1.
\<close>

lemma validate_inputs_timestamps:
  "(fl_le montant (Num 0) \<longrightarrow>
      (\<exists>x. validate_inputs parse montant d1 d2 = Inl x \<and> InvalidAmount x))
   \<and> (\<not> fl_le montant (Num 0) \<and> parse d1 = Inr (Timestamp t1)
        \<and> parse d2 = Inr (Timestamp t2) \<longrightarrow>
        (t2 < t1 \<or> (t2 - t1) div ns_per_day < 1 \<longrightarrow>
           (\<exists>x. validate_inputs parse montant d1 d2 = Inl x \<and> InvalidHorizon x))
      \<and> (t2 = t1 \<longrightarrow> validate_inputs parse montant d1 d2 = Inl (ValueError msg_horizon))
      \<and> (\<not> t2 < t1 \<and> \<not> (t2 - t1) div ns_per_day < 1 \<longrightarrow>
           validate_inputs parse montant d1 d2 = Inr (Days ((t2 - t1) div ns_per_day))))
   \<and> (\<forall>h. validate_inputs parse montant d1 d2 = Inr (Days h) \<longrightarrow> 1 \<le> h)"
  by (auto simp: validate_inputs_def InvalidAmount_def InvalidHorizon_def Let_def
      ns_per_day_def split: sum.splits if_splits timestamp.splits)

text \<open>When either date parses to not-a-time, the horizon returned is NaN.\<close>

lemma validate_inputs_NaT_general:
  assumes "\<not> fl_le montant (Num 0)" "parse d1 = Inr t1" "parse d2 = Inr t2"
    and "t1 = NaT \<or> t2 = NaT"
  shows "validate_inputs parse montant d1 d2 = Inr NanDays"
  using assms by (cases t1; cases t2) (simp_all add: validate_inputs_def Let_def)

text \<open>
  C4. For two empty date strings \<^verbatim>\<open>pd.to_datetime\<close> returns not-a-time twice and
  raises nothing; both comparisons of lines 37 and 40 are false, and
  \<open>validate_inputs\<close> returns NaN as the horizon: it does not fail with InvalidHorizon
  although the two dates are equal, and what it returns is not an integer.
\<close>

theorem validate_inputs_empty_dates:
  "validate_inputs parse_ex (Num 100) [] [] = Inr NanDays"
  by (simp add: validate_inputs_def parse_ex_def Let_def)

section \<open>Log-returns\<close>

lemma log_div_Num:
  assumes "length xs = length ys" "\<forall>a\<in>set xs. 0 < a" "\<forall>b\<in>set ys. 0 < b"
  shows "map fl_log (map2 fl_div (map Num xs) (map Num ys))
         = map2 (\<lambda>a b. Num (ln (a / b))) xs ys"
  using assms by (induction xs ys rule: list_induct2) auto

lemma dropna_no_NaN: "NaN \<notin> set xs \<Longrightarrow> dropna xs = xs"
  by (induction xs) (auto simp: dropna_def is_na_def)

lemma returns_pct_Num:
  assumes "\<forall>a\<in>set (x # xs). 0 < a"
  shows "returns_pct (map Num (x # xs))
         = map2 (\<lambda>a b. Num (ln (a / b) * 100)) xs (butlast (x # xs))"
proof -
  have len: "length xs = length (butlast (x # xs))" by simp
  have pos: "\<forall>b\<in>set (butlast (x # xs)). 0 < b"
    using assms by (meson in_set_butlastD)
  have sh: "shift1 (map Num (x # xs)) = NaN # map Num (butlast (x # xs))"
    by (simp add: shift1_def map_butlast)
  have "map fl_log (map2 fl_div (map Num (x # xs)) (shift1 (map Num (x # xs))))
        = NaN # map2 (\<lambda>a b. Num (ln (a / b))) xs (butlast (x # xs))"
    unfolding sh using log_div_Num [OF len _ pos] assms by simp
  moreover have "NaN \<notin> set (map2 (\<lambda>a b. Num (ln (a / b))) xs (butlast (x # xs)))"
    by (auto simp: set_zip)
  ultimately have
    "dropna (map fl_log (map2 fl_div (map Num (x # xs)) (shift1 (map Num (x # xs)))))
     = map2 (\<lambda>a b. Num (ln (a / b))) xs (butlast (x # xs))"
    using dropna_no_NaN by (simp add: dropna_def is_na_def)
  then have "returns_pct (map Num (x # xs))
        = map (\<lambda>r. fl_mul r (Num 100))
            (map2 (\<lambda>a b. Num (ln (a / b))) xs (butlast (x # xs)))"
    by (simp only: returns_pct_def Let_def)
  also have "\<dots> = map2 (\<lambda>a b. Num (ln (a / b) * 100)) xs (butlast (x # xs))"
    by (simp add: case_prod_beta)
  finally show ?thesis .
qed

lemma dropna_prices:
  assumes "list_all price_ok prices"
  shows "dropna prices = map Num (map the_num (dropna prices))
         \<and> (\<forall>a\<in>set (map the_num (dropna prices)). 0 < a)"
  using assms
  by (induction prices) (auto simp: dropna_def is_na_def price_ok_def split: pyfloat.splits)

text \<open>
  C5. Take a price series whose entries are finite positive prices or missing, with
  at least one price present (the script reaches the transform with 250 or more). With
  \<open>k\<close> missing entries, the log-returns in percent of the series without its missing
  entries are one fewer than the prices left, that is the input length minus 1 minus
  \<open>k\<close>; entry \<open>i\<close> is \<open>ln (price (i + 1) / price i) * 100\<close> over the prices left;
  and no entry is NaN.
\<close>

theorem returns_pct_dropna:
  assumes ok: "list_all price_ok prices" and some: "dropna prices \<noteq> []"
  shows "let taux = dropna prices; out = returns_pct taux;
             k = length (filter is_na prices)
         in int (length out) = int (length prices) - 1 - int k
          \<and> (\<forall>i<length out.
                out ! i = Num (ln (the_num (taux ! (i + 1)) / the_num (taux ! i)) * 100))
          \<and> NaN \<notin> set out"
proof -
  define ps where "ps = map the_num (dropna prices)"
  have t: "dropna prices = map Num ps" and pos: "\<forall>a\<in>set ps. 0 < a"
    using dropna_prices [OF ok] by (simp_all add: ps_def)
  from some t obtain x xs where ps: "ps = x # xs" by (cases ps) auto
  have out: "returns_pct (dropna prices)
             = map2 (\<lambda>a b. Num (ln (a / b) * 100)) xs (butlast (x # xs))"
    using returns_pct_Num pos unfolding t ps by blast
  have "length (dropna prices) + length (filter is_na prices) = length prices"
    unfolding dropna_def using sum_length_filter_compl [of "is_na" prices] by simp
  moreover have "length (dropna prices) = Suc (length xs)"
    by (simp add: t ps)
  ultimately have len: "int (length (returns_pct (dropna prices)))
      = int (length prices) - 1 - int (length (filter is_na prices))"
    unfolding out by simp
  have nth: "\<forall>i<length (returns_pct (dropna prices)).
      returns_pct (dropna prices) ! i
      = Num (ln (the_num (dropna prices ! (i + 1)) / the_num (dropna prices ! i)) * 100)"
    unfolding out by (simp add: t ps nth_butlast nth_Cons')
  have nonan: "NaN \<notin> set (returns_pct (dropna prices))"
    unfolding out by (auto simp: set_zip)
  show ?thesis using len nth nonan by (simp add: Let_def)
qed

theorem returns_pct_dropna_witness:
  "list_all price_ok [Num 1, NaN, Num 2, Num 4]
   \<and> dropna [Num 1, NaN, Num 2, Num 4] = [Num 1, Num 2, Num 4]
   \<and> returns_pct (dropna [Num 1, NaN, Num 2, Num 4]) = [Num (ln 2 * 100), Num (ln 2 * 100)]
   \<and> int (length (returns_pct (dropna [Num 1, NaN, Num 2, Num 4]))) = 4 - 1 - 1"
  using returns_pct_dropna [of "[Num 1, NaN, Num 2, Num 4]"]
  by (simp add: price_ok_def dropna_def is_na_def returns_pct_def shift1_def Let_def)

section \<open>The historical series\<close>

lemma dropna_replicate_Num: "dropna (replicate n (Num a)) = replicate n (Num a)"
  by (simp add: dropna_def is_na_def)

lemma has_column_map_of: "has_column data c = (map_of (columns data) c \<noteq> None)"
  by (simp add: has_column_def map_of_eq_None_iff)

text \<open>
  C6. When the download comes back empty the fetch fails with DataUnavailable. When it
  is not empty and the selected column has fewer than 250 values that are not missing,
  the fetch fails with DataUnavailable; with 250 or more it returns those values. The
  selected column is the adjusted close when the frame has one, and the plain close
  when it has not.
\<close>

theorem fetch_history_contract:
  "(frame_empty data \<longrightarrow> (\<exists>x. fetch_history (Inr data) = Inl x \<and> DataUnavailable x))
   \<and> (\<not> frame_empty data \<and> select_close data = Inr col \<longrightarrow>
        (length (dropna col) < 250 \<longrightarrow>
           (\<exists>x. fetch_history (Inr data) = Inl x \<and> DataUnavailable x))
      \<and> (250 \<le> length (dropna col) \<longrightarrow> fetch_history (Inr data) = Inr (dropna col)))
   \<and> (map_of (columns data) ''Adj Close'' = Some adj \<longrightarrow> select_close data = Inr adj)
   \<and> (map_of (columns data) ''Adj Close'' = None \<and> map_of (columns data) ''Close'' = Some cl
        \<longrightarrow> select_close data = Inr cl)"
  by (auto simp: fetch_history_def DataUnavailable_def select_close_def has_column_map_of
      get_column_def Let_def)

theorem fetch_history_contract_witness:
  "fetch_history (Inr (frame_ex 0)) = Inl (ValueError msg_historique)
   \<and> fetch_history (Inr (frame_ex 249)) = Inl (ValueError msg_insuffisant)
   \<and> fetch_history (Inr (frame_ex 250)) = Inr (replicate 250 (Num 10))
   \<and> select_close \<lparr>n_rows = 1, columns = [(''Close'', [Num 10]), (''Adj Close'', [Num 9])]\<rparr>
       = Inr [Num 9]"
  using fetch_history_contract [of "frame_ex 0"]
    fetch_history_contract [of "frame_ex 249" "replicate 249 (Num 10)"]
    fetch_history_contract [of "frame_ex 250" "replicate 250 (Num 10)" _ "replicate 250 (Num 10)"]
    fetch_history_contract
      [of "\<lparr>n_rows = 1, columns = [(''Close'', [Num 10]), (''Adj Close'', [Num 9])]\<rparr>" _ "[Num 9]"]
  by (simp add: frame_ex_def frame_empty_def fetch_history_def select_close_def has_column_def
      get_column_def dropna_replicate_Num Let_def)

section \<open>Monotonicity of the VaR\<close>

lemma np_sqrt_nonneg: "0 \<le> h \<Longrightarrow> np_sqrt (Days h) = Num (sqrt (real_of_int h))"
  by simp

text \<open>What the clamp hands to the VaR computation is a finite positive number.\<close>

lemma vol_clamp_Num:
  assumes "v \<noteq> NaN"
  shows "vol_clamp v = Num (the_num (vol_clamp v)) \<and> 0 < the_num (vol_clamp v)"
  using assms
  by (cases v) (simp_all add: vol_clamp_def py_min_def py_max_def vol_min_eq vol_max_eq)

lemma horizon_scaling_mono:
  assumes "0 \<le> x" "0 \<le> h1" "h1 \<le> h2"
  shows "fl_le (fl_mul (fl_mul (fl_abs (Num q)) (Num x)) (np_sqrt (Days h1)))
               (fl_mul (fl_mul (fl_abs (Num q)) (Num x)) (np_sqrt (Days h2)))"
proof -
  have "sqrt (real_of_int h1) \<le> sqrt (real_of_int h2)"
    using assms by simp
  moreover have "0 \<le> \<bar>q\<bar> * x" using assms by simp
  ultimately have "\<bar>q\<bar> * x * sqrt (real_of_int h1) \<le> \<bar>q\<bar> * x * sqrt (real_of_int h2)"
    by (rule mult_left_mono)
  then show ?thesis using assms by (simp add: np_sqrt_nonneg)
qed

lemma quantile_scaling_mono:
  assumes "0 \<le> x" "0 \<le> h" "a \<le> b" "b \<le> 0"
  shows "fl_le (fl_mul (fl_abs (Num b)) (Num x)) (fl_mul (fl_abs (Num a)) (Num x))"
    and "fl_le (fl_mul (fl_mul (fl_abs (Num b)) (Num x)) (np_sqrt (Days h)))
               (fl_mul (fl_mul (fl_abs (Num a)) (Num x)) (np_sqrt (Days h)))"
proof -
  have ab: "\<bar>b\<bar> \<le> \<bar>a\<bar>" using assms by simp
  then have d: "\<bar>b\<bar> * x \<le> \<bar>a\<bar> * x"
    using assms(1) by (rule mult_right_mono)
  then show "fl_le (fl_mul (fl_abs (Num b)) (Num x)) (fl_mul (fl_abs (Num a)) (Num x))"
    by simp
  have "0 \<le> sqrt (real_of_int h)" using assms(2) by simp
  with d have "\<bar>b\<bar> * x * sqrt (real_of_int h) \<le> \<bar>a\<bar> * x * sqrt (real_of_int h)"
    by (rule mult_right_mono)
  then show "fl_le (fl_mul (fl_mul (fl_abs (Num b)) (Num x)) (np_sqrt (Days h)))
               (fl_mul (fl_mul (fl_abs (Num a)) (Num x)) (np_sqrt (Days h)))"
    using assms(2) by (simp add: np_sqrt_nonneg)
qed

lemma lower_tail_quantile_ex: "lower_tail_quantile ppf_ex (Num 5)"
  by (simp add: lower_tail_quantile_def ppf_ex_def)

text \<open>
  C3. Let the volatility be a finite number that is not negative. With a finite
  quantile, the horizon VaR does not decrease when the horizon grows: the script's
  baseline and stressed horizon VaR, and the specification's \<open>computeVaR\<close> at any
  confidence. With a quantile function that is finite, non-decreasing and not positive
  on the lower tail, as the Student-t quantile function is, the daily and the horizon
  VaR of \<open>computeVaR\<close> do not decrease when the confidence grows within (0.5, 1); for
  the script's two confidences, the stressed horizon VaR (0.99) is at least the
  baseline one (0.95).
\<close>

theorem var_monotone:
  assumes x: "0 \<le> x"
  shows
   "(0 \<le> h1 \<and> h1 \<le> h2 \<and> ppf (Num 0.05) dof = Num q \<longrightarrow>
       fl_le (var_horizon (var_section ppf (Num x) dof (Days h1) m t st))
             (var_horizon (var_section ppf (Num x) dof (Days h2) m t st)))
    \<and> (0 \<le> h1 \<and> h1 \<le> h2 \<and> ppf (Num 0.01) dof = Num q \<longrightarrow>
       fl_le (the (var_horizon_stress (var_section ppf (Num x) dof (Days h1) m t True)))
             (the (var_horizon_stress (var_section ppf (Num x) dof (Days h2) m t True))))
    \<and> (0 \<le> h1 \<and> h1 \<le> h2 \<and> ppf (Num (1 - c)) dof = Num q \<longrightarrow>
       fl_le (snd (spec_computeVaR ppf (Num x) dof h1 c))
             (snd (spec_computeVaR ppf (Num x) dof h2 c)))
    \<and> (lower_tail_quantile ppf dof \<and> 1 / 2 < c1 \<and> c1 \<le> c2 \<and> c2 < 1 \<and> 0 \<le> h \<longrightarrow>
       fl_le (fst (spec_computeVaR ppf (Num x) dof h c1))
             (fst (spec_computeVaR ppf (Num x) dof h c2))
     \<and> fl_le (snd (spec_computeVaR ppf (Num x) dof h c1))
             (snd (spec_computeVaR ppf (Num x) dof h c2)))
    \<and> (lower_tail_quantile ppf dof \<and> 0 \<le> h \<longrightarrow>
       fl_le (var_horizon (var_section ppf (Num x) dof (Days h) m t True))
             (the (var_horizon_stress (var_section ppf (Num x) dof (Days h) m t True))))"
proof -
  have A: "0 \<le> h1 \<and> h1 \<le> h2 \<and> ppf (Num 0.05) dof = Num q \<longrightarrow>
       fl_le (var_horizon (var_section ppf (Num x) dof (Days h1) m t st))
             (var_horizon (var_section ppf (Num x) dof (Days h2) m t st))"
    using horizon_scaling_mono [OF x] by (simp add: var_section_def Let_def)
  have B: "0 \<le> h1 \<and> h1 \<le> h2 \<and> ppf (Num 0.01) dof = Num q \<longrightarrow>
       fl_le (the (var_horizon_stress (var_section ppf (Num x) dof (Days h1) m t True)))
             (the (var_horizon_stress (var_section ppf (Num x) dof (Days h2) m t True)))"
    using horizon_scaling_mono [OF x] by (simp add: var_section_def Let_def)
  have C: "0 \<le> h1 \<and> h1 \<le> h2 \<and> ppf (Num (1 - c)) dof = Num q \<longrightarrow>
       fl_le (snd (spec_computeVaR ppf (Num x) dof h1 c))
             (snd (spec_computeVaR ppf (Num x) dof h2 c))"
    using horizon_scaling_mono [OF x] by (simp add: spec_computeVaR_def Let_def)
  have D: "lower_tail_quantile ppf dof \<and> 1 / 2 < c1 \<and> c1 \<le> c2 \<and> c2 < 1 \<and> 0 \<le> h \<longrightarrow>
       fl_le (fst (spec_computeVaR ppf (Num x) dof h c1))
             (fst (spec_computeVaR ppf (Num x) dof h c2))
     \<and> fl_le (snd (spec_computeVaR ppf (Num x) dof h c1))
             (snd (spec_computeVaR ppf (Num x) dof h c2))"
  proof (intro impI, elim conjE)
    assume q: "lower_tail_quantile ppf dof" and c: "1 / 2 < c1" "c1 \<le> c2" "c2 < 1"
      and h: "0 \<le> h"
    have "0 < 1 - c2 \<and> 1 - c2 \<le> 1 - c1 \<and> 1 - c1 < 1 / 2" using c by simp
    with q obtain a b where ab: "ppf (Num (1 - c2)) dof = Num a"
      "ppf (Num (1 - c1)) dof = Num b" "a \<le> b" "b \<le> 0"
      unfolding lower_tail_quantile_def by blast
    show "fl_le (fst (spec_computeVaR ppf (Num x) dof h c1))
             (fst (spec_computeVaR ppf (Num x) dof h c2))
     \<and> fl_le (snd (spec_computeVaR ppf (Num x) dof h c1))
             (snd (spec_computeVaR ppf (Num x) dof h c2))"
      using quantile_scaling_mono [OF x h ab(3,4)]
      by (simp add: spec_computeVaR_def Let_def ab(1,2))
  qed
  have E: "lower_tail_quantile ppf dof \<and> 0 \<le> h \<longrightarrow>
       fl_le (var_horizon (var_section ppf (Num x) dof (Days h) m t True))
             (the (var_horizon_stress (var_section ppf (Num x) dof (Days h) m t True)))"
  proof (intro impI, elim conjE)
    assume q: "lower_tail_quantile ppf dof" and h: "0 \<le> h"
    have "(0::real) < 0.01 \<and> (0.01::real) \<le> 0.05 \<and> (0.05::real) < 1 / 2" by simp
    with q obtain a b where ab: "ppf (Num 0.01) dof = Num a"
      "ppf (Num 0.05) dof = Num b" "a \<le> b" "b \<le> 0"
      unfolding lower_tail_quantile_def by blast
    from ab(1,2) have ab': "ppf (Num (1 / 100)) dof = Num a" "ppf (Num (1 / 20)) dof = Num b"
      by simp_all
    show "fl_le (var_horizon (var_section ppf (Num x) dof (Days h) m t True))
             (the (var_horizon_stress (var_section ppf (Num x) dof (Days h) m t True)))"
      using quantile_scaling_mono(2) [OF x h ab(3,4)]
      by (simp add: var_section_def Let_def ab')
  qed
  from A B C D E show ?thesis by blast
qed

theorem var_monotone_witness:
  "lower_tail_quantile ppf_ex (Num 5)
   \<and> fl_le (var_horizon (var_section ppf_ex (Num 0.003) (Num 5) (Days 1) (Num 10000) (Num 10) True))
           (var_horizon (var_section ppf_ex (Num 0.003) (Num 5) (Days 4) (Num 10000) (Num 10) True))
   \<and> fl_le (fst (spec_computeVaR ppf_ex (Num 0.003) (Num 5) 4 0.95))
           (fst (spec_computeVaR ppf_ex (Num 0.003) (Num 5) 4 0.99))
   \<and> fl_le (snd (spec_computeVaR ppf_ex (Num 0.003) (Num 5) 4 0.95))
           (snd (spec_computeVaR ppf_ex (Num 0.003) (Num 5) 4 0.99))
   \<and> fl_le (var_horizon (var_section ppf_ex (Num 0.003) (Num 5) (Days 4) (Num 10000) (Num 10) True))
           (the (var_horizon_stress
                  (var_section ppf_ex (Num 0.003) (Num 5) (Days 4) (Num 10000) (Num 10) True)))"
  using var_monotone
    [where x = "0.003" and ppf = ppf_ex and dof = "Num 5" and ?h1.0 = 1 and ?h2.0 = 4 and h = 4
       and ?c1.0 = "0.95" and ?c2.0 = "0.99" and c = "0.95" and q = "- 0.45"
       and m = "Num 10000" and t = "Num 10" and st = True]
    lower_tail_quantile_ex
  by (simp add: ppf_ex_def)

section \<open>The pipeline\<close>

lemma fl_mul_NaN_right: "fl_mul x NaN = NaN"
  by (cases x) simp_all

lemma fl_sub_NaN_right: "fl_sub x NaN = NaN"
  by (cases x) simp_all

text \<open>Line 118 never finds a stress variable unassigned.\<close>

lemma resume_text_var_section:
  "resume_text e (var_section ppf v d h m t st) st =
     Inr (resume_base e (var_section ppf v d h m t st)
          @ (if st
             then resume_stress e
                    (the (var_horizon_stress_pct (var_section ppf v d h m t st)))
                    (the (perte_potentielle_stress (var_section ppf v d h m t st)))
             else []))"
  by (simp add: resume_text_def var_section_def Let_def)

lemma calculer_var_try_success:
  assumes "validate_inputs (to_datetime e) m d1 d2 = Inr h"
    and "get_taux_usd_mad e = Inr (Inr taux)"
    and "fetch_history (history_feed e) = Inr hist"
    and "egarch_fit e (returns_pct hist) = Inr result"
    and "current_volatility result = Inr vol"
    and "get_param result ''nu'' = Inr dof"
  shows "calculer_var_try e m d1 d2 st out =
     (Resume (var_section (t_ppf e) (vol_clamp vol) dof h m taux st)
        (resume_base e (var_section (t_ppf e) (vol_clamp vol) dof h m taux st)
          @ (if st
             then resume_stress e
                    (the (var_horizon_stress_pct
                           (var_section (t_ppf e) (vol_clamp vol) dof h m taux st)))
                    (the (perte_potentielle_stress
                           (var_section (t_ppf e) (vol_clamp vol) dof h m taux st)))
             else [])),
      out @ [adjusted_line e (vol_clamp vol)])"
  using assms by (simp add: calculer_var_try_def Let_def resume_text_var_section)

lemma env_ex_stages:
  "validate_inputs (to_datetime (env_ex nu)) (Num 10000) ''2025-01-01'' ''2025-02-01''
     = Inr (Days 31)"
  "get_taux_usd_mad (env_ex nu) = Inr (Inr (Num 10))"
  "fetch_history (history_feed (env_ex nu)) = Inr (replicate 250 (Num 10))"
  "egarch_fit (env_ex nu) rets = Inr (fit_ex (Num 0.5) nu)"
  "current_volatility (fit_ex (Num 0.5) nu) = Inr (Num 0.005)"
  "get_param (fit_ex (Num 0.5) nu) ''nu'' = Inr nu"
  "t_ppf (env_ex nu) = ppf_ex"
        apply (simp add: env_ex_def parse_ex_def validate_inputs_def ns_per_day_def)
       apply (simp add: env_ex_def get_taux_usd_mad_def get_taux_usd_mad_try_def
      frame_empty_def get_column_def is_na_def iloc_last_def dropna_def)
      apply (simp add: env_ex_def frame_ex_def frame_empty_def fetch_history_def
      select_close_def has_column_def get_column_def dropna_replicate_Num Let_def)
     apply (simp add: env_ex_def)
    apply (simp add: fit_ex_def current_volatility_def iloc_last_def)
   apply (simp add: fit_ex_def get_param_def)
  apply (simp add: env_ex_def)
  done

lemma var_section_stress_flag:
  "baseline_fields (var_section ppf v d h m t True)
     = baseline_fields (var_section ppf v d h m t False)"
  "resume_base e (var_section ppf v d h m t True)
     = resume_base e (var_section ppf v d h m t False)"
  "var_horizon_stress_pct (var_section ppf v d h m t False) = None"
  "perte_potentielle_stress (var_section ppf v d h m t False) = None"
  "var_horizon_stress_pct (var_section ppf v d h m t True) \<noteq> None"
  "perte_potentielle_stress (var_section ppf v d h m t True) \<noteq> None"
  by (simp_all add: var_section_def baseline_fields_def resume_base_def Let_def)

section \<open>Non-finite values\<close>

text \<open>
  C7. The VaR computation checks no value for finiteness and has no failure of its
  own. Whenever validation, the quote, the historical series, the fit and the reads of
  the volatility and of the tail parameter succeed, \<open>calculer_var\<close> returns a report,
  printed from the values of lines 84-106 whatever they are; when the quantile is NaN,
  so are the daily VaR, the horizon VaR, the potential loss and the estimated
  settlement amount of that report.
\<close>

theorem var_computation_always_reports:
  assumes "validate_inputs (to_datetime e) m d1 d2 = Inr h"
    and "get_taux_usd_mad e = Inr (Inr taux)"
    and "fetch_history (history_feed e) = Inr hist"
    and "egarch_fit e (returns_pct hist) = Inr result"
    and "current_volatility result = Inr vol"
    and "get_param result ''nu'' = Inr dof"
  shows "outcome_locals (fst (calculer_var_try e m d1 d2 st out))
           = Some (var_section (t_ppf e) (vol_clamp vol) dof h m taux st)
       \<and> (t_ppf e (Num 0.05) dof = NaN \<longrightarrow>
            quantile_t (var_section (t_ppf e) (vol_clamp vol) dof h m taux st) = NaN
          \<and> var_journaliere_pct (var_section (t_ppf e) (vol_clamp vol) dof h m taux st) = NaN
          \<and> var_horizon_pct (var_section (t_ppf e) (vol_clamp vol) dof h m taux st) = NaN
          \<and> perte_potentielle (var_section (t_ppf e) (vol_clamp vol) dof h m taux st) = NaN
          \<and> montant_estime (var_section (t_ppf e) (vol_clamp vol) dof h m taux st) = NaN)"
proof -
  have "outcome_locals (fst (calculer_var_try e m d1 d2 st out))
           = Some (var_section (t_ppf e) (vol_clamp vol) dof h m taux st)"
    by (simp add: calculer_var_try_success [OF assms])
  moreover have "t_ppf e (Num 0.05) dof = NaN \<longrightarrow>
            quantile_t (var_section (t_ppf e) (vol_clamp vol) dof h m taux st) = NaN
          \<and> var_journaliere_pct (var_section (t_ppf e) (vol_clamp vol) dof h m taux st) = NaN
          \<and> var_horizon_pct (var_section (t_ppf e) (vol_clamp vol) dof h m taux st) = NaN
          \<and> perte_potentielle (var_section (t_ppf e) (vol_clamp vol) dof h m taux st) = NaN
          \<and> montant_estime (var_section (t_ppf e) (vol_clamp vol) dof h m taux st) = NaN"
    by (simp add: var_section_def Let_def fl_sub_NaN_right)
  ultimately show ?thesis by blast
qed

theorem var_computation_always_reports_witness:
  "outcome_locals (fst (calculer_var_try (env_ex (Num 5)) (Num 10000) ''2025-01-01''
      ''2025-02-01'' False []))
     = Some (var_section ppf_ex (vol_clamp (Num 0.005)) (Num 5) (Days 31) (Num 10000) (Num 10) False)
   \<and> t_ppf (env_ex NaN) (Num 0.05) NaN = NaN
   \<and> montant_estime
        (var_section ppf_ex (vol_clamp (Num 0.005)) NaN (Days 31) (Num 10000) (Num 10) True) = NaN"
  using
    var_computation_always_reports
      [where e = "env_ex (Num 5)" and st = False and out = "[]", OF env_ex_stages(1-6)]
    var_computation_always_reports
      [where e = "env_ex NaN" and st = True and out = "[]", OF env_ex_stages(1-6)]
  by (simp add: env_ex_stages(7) ppf_ex_def)

text \<open>
  With a fit whose tail parameter is NaN the quantile is NaN, and \<open>calculer_var\<close>
  does not fail: it returns a report whose quantile and estimated settlement amount
  are NaN.
\<close>

theorem nan_quantile_is_reported:
  "outcome_locals (fst (calculer_var_try (env_ex NaN) (Num 10000) ''2025-01-01'' ''2025-02-01''
      True [])) \<noteq> None
   \<and> map_option quantile_t
        (outcome_locals (fst (calculer_var_try (env_ex NaN) (Num 10000) ''2025-01-01''
           ''2025-02-01'' True []))) = Some NaN
   \<and> map_option montant_estime
        (outcome_locals (fst (calculer_var_try (env_ex NaN) (Num 10000) ''2025-01-01''
           ''2025-02-01'' True []))) = Some NaN"
  by (simp add: calculer_var_try_success [OF env_ex_stages(1-6)] env_ex_stages(7)
      var_section_def ppf_ex_def Let_def)

section \<open>Errors become text\<close>

lemma is_Exception_dates_handler: "is_Exception (dates_handler x) = is_Exception x"
  by (cases x) simp_all


















section \<open>The stress flag\<close>

text \<open>
  C10. For a fixed snapshot and request, the run without and the run with stress
  testing end the same way. When they fail they fail with the same error. When they
  report, the horizon, the current rate, the booked amount, the estimated settlement
  amount, the daily and horizon VaR in percent and the potential loss are the same;
  without stress the two stress values are absent and the text is the baseline report;
  with stress they are present and the text is the baseline report followed by the two
  stress lines. Both runs print the same line.
\<close>

theorem stress_flag_frame:
  "(case (fst (calculer_var_try e m d1 d2 False out), fst (calculer_var_try e m d1 d2 True out)) of
      (Raised x, Raised y) \<Rightarrow> x = y
    | (RateError a, RateError b) \<Rightarrow> a = b
    | (Resume r0 t0, Resume r1 t1) \<Rightarrow>
        baseline_fields r0 = baseline_fields r1
        \<and> var_horizon_stress_pct r0 = None \<and> perte_potentielle_stress r0 = None
        \<and> var_horizon_stress_pct r1 \<noteq> None \<and> perte_potentielle_stress r1 \<noteq> None
        \<and> t0 = resume_base e r0
        \<and> t1 = t0 @ resume_stress e (the (var_horizon_stress_pct r1))
                      (the (perte_potentielle_stress r1))
    | _ \<Rightarrow> False)
   \<and> snd (calculer_var_try e m d1 d2 False out) = snd (calculer_var_try e m d1 d2 True out)"
  by (simp add: calculer_var_try_def resume_text_var_section var_section_stress_flag Let_def
      split: sum.splits)

end
